theory Spec2Isabelle
  imports Complex_Main "HOL-Library.Word"
begin

section \<open>JavaScript values\<close>

text \<open>
  A JavaScript string is a sequence of UTF-16 code units. \<open>js\<close> turns an ASCII literal
  into such a sequence; the Japanese literals of the source are written out as code units
  further down.
\<close>

type_synonym jsstring = "16 word list"

definition js :: "string \<Rightarrow> jsstring" where
  "js s = map of_char s"

text \<open>
  \<open>String.prototype.trim\<close> removes the code units of \<open>WhiteSpace\<close> and
  \<open>LineTerminator\<close> (ECMA-262) from both ends.
\<close>

definition isWhiteSpace :: "16 word \<Rightarrow> bool" where
  "isWhiteSpace c = (c \<in> set [0x0009, 0x000A, 0x000B, 0x000C, 0x000D, 0x0020, 0x00A0, 0x1680,
     0x2000, 0x2001, 0x2002, 0x2003, 0x2004, 0x2005, 0x2006, 0x2007, 0x2008, 0x2009, 0x200A,
     0x2028, 0x2029, 0x202F, 0x205F, 0x3000, 0xFEFF])"

definition trim :: "jsstring \<Rightarrow> jsstring" where
  "trim s = rev (dropWhile isWhiteSpace (rev (dropWhile isWhiteSpace s)))"

text \<open>\<open>s.endsWith(t)\<close>.\<close>

definition endsWith :: "jsstring \<Rightarrow> jsstring \<Rightarrow> bool" where
  "endsWith s t = (length t \<le> length s \<and> drop (length s - length t) s = t)"

text \<open>
  \<open>Number.prototype.toString\<close> on an integer value such as \<open>Date.now()\<close> or an HTTP
  status: the decimal digits, with a minus sign for a negative value (JavaScript prints
  integers of this size in full).
\<close>

fun toString_nat :: "nat \<Rightarrow> jsstring" where
  "toString_nat n =
     (if n < 10 then [of_nat (48 + n)]
      else toString_nat (n div 10) @ [of_nat (48 + n mod 10)])"

declare toString_nat.simps [simp del]

definition toString :: "int \<Rightarrow> jsstring" where
  "toString i = (if i < 0 then 0x002D # toString_nat (nat (- i)) else toString_nat (nat i))"




text \<open>
  A value decoded from JSON (the \<open>any\<close> that crosses the bridge). \<open>JNum\<close> carries the
  number its JSON text denotes; \<open>JObj\<close> carries the own properties of the object, one pair
  per key. The JavaScript value \<open>undefined\<close> is not a JSON value: an expression that may
  be \<open>undefined\<close> has type \<open>json option\<close>, with \<open>None\<close> for \<open>undefined\<close>.
\<close>

datatype json =
    JNull
  | JBool bool
  | JNum rat
  | JStr jsstring
  | JArr "json list"
  | JObj "(jsstring \<times> json) list"

text \<open>\<open>ToBoolean\<close>: what \<open>&&\<close>, \<open>||\<close> and \<open>if\<close> test.\<close>

fun truthy :: "json \<Rightarrow> bool" where
  "truthy JNull = False"
| "truthy (JBool b) = b"
| "truthy (JNum r) = (r \<noteq> 0)"
| "truthy (JStr s) = (s \<noteq> [])"
| "truthy (JArr xs) = True"
| "truthy (JObj kvs) = True"

fun truthy_opt :: "json option \<Rightarrow> bool" where
  "truthy_opt None = False"
| "truthy_opt (Some v) = truthy v"

text \<open>\<open>a || b\<close>: the left operand when it is truthy, else the right one.\<close>

definition or_else :: "json option \<Rightarrow> json \<Rightarrow> json" where
  "or_else a b = (case a of None \<Rightarrow> b | Some v \<Rightarrow> if truthy v then v else b)"

text \<open>
  \<open>v.k\<close> on a value \<open>v\<close> that is neither \<open>null\<close> nor \<open>undefined\<close>, for the property
  names \<open>choices\<close>, \<open>message\<close>, \<open>content\<close> and \<open>data\<close>: only an object can have them;
  on an array, a string, a number or a boolean they are \<open>undefined\<close>.
\<close>

fun property :: "jsstring \<Rightarrow> json \<Rightarrow> json option" where
  "property k (JObj kvs) = map_of kvs k"
| "property k v = None"

text \<open>\<open>v?.k\<close>: \<open>undefined\<close> when \<open>v\<close> is \<open>null\<close> or \<open>undefined\<close>, else \<open>v.k\<close>.\<close>

fun optional_prop :: "jsstring \<Rightarrow> json option \<Rightarrow> json option" where
  "optional_prop k None = None"
| "optional_prop k (Some JNull) = None"
| "optional_prop k (Some v) = property k v"

text \<open>
  \<open>v[0]\<close> on a value that is neither \<open>null\<close> nor \<open>undefined\<close>: the first element of an
  array, the first code unit of a string, the property \<open>"0"\<close> of an object.
\<close>

fun index0 :: "json \<Rightarrow> json option" where
  "index0 (JArr xs) = (case xs of [] \<Rightarrow> None | x # _ \<Rightarrow> Some x)"
| "index0 (JStr s) = (case s of [] \<Rightarrow> None | c # _ \<Rightarrow> Some (JStr [c]))"
| "index0 (JObj kvs) = map_of kvs (js ''0'')"
| "index0 v = None"

text \<open>\<open>v.length\<close> on a value that is neither \<open>null\<close> nor \<open>undefined\<close>.\<close>

fun length_prop :: "json \<Rightarrow> json option" where
  "length_prop (JArr xs) = Some (JNum (of_nat (length xs)))"
| "length_prop (JStr s) = Some (JNum (of_nat (length s)))"
| "length_prop (JObj kvs) = map_of kvs (js ''length'')"
| "length_prop v = None"

text \<open>
  A thrown value or the reason of a rejected promise. The handlers only ask whether it is
  an instance of \<open>Error\<close> and, if so, read its \<open>message\<close>.
\<close>

datatype thrown = JsError (message: jsstring) | NotAnError

text \<open>
  Reading a property of \<open>undefined\<close> or \<open>null\<close> throws a \<open>TypeError\<close>; its message is
  the engine's (V8's wording).
\<close>

definition cannot_read :: "jsstring \<Rightarrow> jsstring \<Rightarrow> thrown" where
  "cannot_read what key =
     JsError (js ''Cannot read properties of '' @ what @ js '' (reading '' @ [0x0027] @ key
              @ [0x0027] @ js '')'')"

text \<open>
  A list of results in evaluation order: the values, or the first error thrown.
\<close>

fun collect :: "(thrown + 'a) list \<Rightarrow> thrown + 'a list" where
  "collect [] = Inr []"
| "collect (Inl e # rs) = Inl e"
| "collect (Inr v # rs) = (case collect rs of Inl e \<Rightarrow> Inl e | Inr vs \<Rightarrow> Inr (v # vs))"

definition join_texts :: "jsstring \<Rightarrow> jsstring list \<Rightarrow> jsstring" where
  "join_texts sep ts =
     (case ts of [] \<Rightarrow> [] | t # rest \<Rightarrow> foldl (\<lambda>acc u. acc @ sep @ u) t rest)"

text \<open>
  \<open>ToString\<close> of a decoded value, as a template literal and \<open>Array.prototype.join\<close>
  apply it. The text of a number is the engine's \<open>Number::toString\<close>, an input of the
  model (\<open>numText\<close>). An array is its elements joined by commas, \<open>null\<close> counting as
  the empty text. An object is \<open>[object Object]\<close>, unless it has a property \<open>toString\<close> of
  its own: a decoded value is never callable, so the conversion then finds no method that
  returns a primitive and throws.
\<close>

definition cannot_convert :: thrown where
  "cannot_convert = JsError (js ''Cannot convert object to primitive value'')"

fun ToString :: "(rat \<Rightarrow> jsstring) \<Rightarrow> json \<Rightarrow> thrown + jsstring" where
  "ToString numText JNull = Inr (js ''null'')"
| "ToString numText (JBool b) = Inr (if b then js ''true'' else js ''false'')"
| "ToString numText (JNum r) = Inr (numText r)"
| "ToString numText (JStr s) = Inr s"
| "ToString numText (JArr xs) =
     (case collect (map (\<lambda>v. if v = JNull then Inr [] else ToString numText v) xs) of
        Inl e \<Rightarrow> Inl e
      | Inr ts \<Rightarrow> Inr (join_texts (js '','') ts))"
| "ToString numText (JObj kvs) =
     (if map_of kvs (js ''toString'') = None then Inr (js ''[object Object]'')
      else Inl cannot_convert)"

text \<open>\<open>xs.join(sep)\<close> on an array of decoded values.\<close>

definition join_array :: "(rat \<Rightarrow> jsstring) \<Rightarrow> jsstring \<Rightarrow> json list \<Rightarrow> thrown + jsstring" where
  "join_array numText sep xs =
     (case collect (map (\<lambda>v. if v = JNull then Inr [] else ToString numText v) xs) of
        Inl e \<Rightarrow> Inl e
      | Inr ts \<Rightarrow> Inr (join_texts sep ts))"

section \<open>Data model\<close>

datatype role = user | assistant

definition role_text :: "role \<Rightarrow> jsstring" where
  "role_text r = (case r of user \<Rightarrow> js ''user'' | assistant \<Rightarrow> js ''assistant'')"

text \<open>
  \<open>interface Message\<close>. The field \<open>content\<close> is declared a string, but the reply branch of
  \<open>sendMessage\<close> stores whatever value the server put there, so the model keeps the value.
  \<open>timestamp\<close> is the reading of \<open>new Date()\<close> in milliseconds.
\<close>

record Message =
  id_msg :: jsstring
  role :: role
  content :: json
  timestamp :: int

record LMStudioConfig =
  baseUrl :: jsstring
  model :: jsstring

definition DEFAULT_CONFIG :: LMStudioConfig where
  "DEFAULT_CONFIG = \<lparr>baseUrl = js ''http://localhost:1234'', model = js ''local-model''\<rparr>"

text \<open>The argument of \<open>callLMStudioAPI\<close>; \<open>body = None\<close> when the property is absent.\<close>

record descriptor =
  endpoint :: jsstring
  http_method :: jsstring
  body :: "json option"

text \<open>What the bridge resolves to (\<open>response.type\<close>, \<open>response.data\<close>), or the rejection.\<close>

record response =
  type_tag :: jsstring
  data :: json

datatype relay_outcome = Resolved response | Rejected thrown

text \<open>
  The two clock readings taken when a Message is built: \<open>Date.now()\<close> for the id and
  \<open>new Date()\<close> for the timestamp.
\<close>

record clock =
  Date_now :: int
  new_Date :: int

text \<open>
  A call of \<open>alert\<close>. \<open>Alert_models v\<close> is the template
  \<open>`...: ${v}`\<close> of the connection test in \<open>src/App.tsx\<close>, where \<open>v\<close> is the value
  interpolated.
\<close>

datatype alert = Alert_text jsstring | Alert_models json

text \<open>
  The state of the component in \<open>src/App.tsx\<close>: its \<open>useState\<close> cells and the alerts
  raised so far.
\<close>

record basic_state =
  messages :: "Message list"
  input :: jsstring
  isLoading :: bool
  config :: LMStudioConfig
  showConfig :: bool
  alerts :: "alert list"

text \<open>
  The component with the settings panel adds the staged configuration and the item stored
  under \<open>CONFIG_STORAGE_KEY\<close> in \<open>localStorage\<close> (the JSON text of a configuration).
\<close>

record state = basic_state +
  tempConfig :: LMStudioConfig
  stored :: "LMStudioConfig option"

section \<open>The literals of the source\<close>

text \<open>
  The Japanese string literals of the components, code unit by code unit, with the line of
  \<open>unnamed/part_000\<close> (or of \<open>src/App.tsx\<close>) each comes from and its meaning:
  \<^item> \<open>msg_empty_response\<close>, line 143, the reply used when the content is missing
    ("error: the response is empty");
  \<^item> \<open>msg_invalid_format\<close>, line 149, the message of the error thrown by \<open>sendMessage\<close>
    ("invalid response format");
  \<^item> \<open>msg_invalid_response\<close>, line 201, the message of the error thrown by
    \<open>testConnection\<close> ("invalid response");
  \<^item> \<open>msg_unknown_error\<close>, lines 156 and 204, the text for a thrown value that is not an
    \<open>Error\<close> ("unknown error");
  \<^item> \<open>txt_error_occurred\<close>, line 156, the head of the error entry ("an error occurred: ");
  \<^item> \<open>txt_check_settings_url\<close>, line 156, two line feeds, "please check the settings:",
    a line feed and the bullet "API URL: ";
  \<^item> \<open>txt_model_name\<close>, lines 70, 89 and 156, a line feed and the bullet "model name: ";
  \<^item> \<open>txt_saved_url\<close>, line 70, "the settings have been saved", a line feed and the bullet
    "API URL: ";
  \<^item> \<open>txt_reset_url\<close>, line 89, "the settings have been reset to the defaults", a line
    feed and the bullet "API URL: ";
  \<^item> \<open>txt_save_failed\<close>, line 76, the alert "saving the settings failed";
  \<^item> \<open>txt_connected_url\<close>, line 196, "connected!", two line feeds and "API URL: ";
  \<^item> \<open>txt_conn_error_url\<close>, line 208, "connection error", two line feeds and "API URL: ";
  \<^item> \<open>txt_error_detail\<close>, line 208, a line feed and "error detail: ";
  \<^item> \<open>txt_check_settings\<close>, line 208, two line feeds and "please check the settings.";
  \<^item> \<open>txt_alert_conn_error\<close>, line 121 of \<open>src/App.tsx\<close>, "connection error: ";
  \<^item> \<open>msg_unknown\<close>, line 1118, the name of a model that has neither id nor name
    ("unknown");
  \<^item> \<open>txt_listing_connected_url\<close>, line 1123, the check mark U+2705, a space, "connected!",
    two line feeds and "API URL: ";
  \<^item> \<open>txt_model_count\<close>, line 1123, a line feed and "number of available models: ";
  \<^item> \<open>txt_model_list\<close>, line 1123, a line feed and "list of models: ";
  \<^item> \<open>txt_none\<close>, line 1123, the text for an empty list ("none");
  \<^item> \<open>txt_listing_conn_error_url\<close>, line 1135, the cross mark U+274C, a space,
    "connection error", two line feeds and "API URL: ".
\<close>

definition msg_empty_response :: jsstring where
  "msg_empty_response =
     [0x30A8, 0x30E9, 0x30FC, 0x003A, 0x0020, 0x30EC, 0x30B9, 0x30DD, 0x30F3, 0x30B9,
      0x304C, 0x7A7A, 0x3067, 0x3059]"

definition msg_invalid_format :: jsstring where
  "msg_invalid_format =
     [0x7121, 0x52B9, 0x306A, 0x30EC, 0x30B9, 0x30DD, 0x30F3, 0x30B9, 0x5F62, 0x5F0F]"

definition msg_invalid_response :: jsstring where
  "msg_invalid_response = [0x7121, 0x52B9, 0x306A, 0x30EC, 0x30B9, 0x30DD, 0x30F3, 0x30B9]"

definition msg_unknown_error :: jsstring where
  "msg_unknown_error = [0x4E0D, 0x660E, 0x306A, 0x30A8, 0x30E9, 0x30FC]"

definition txt_error_occurred :: jsstring where
  "txt_error_occurred =
     [0x30A8, 0x30E9, 0x30FC, 0x304C, 0x767A, 0x751F, 0x3057, 0x307E, 0x3057, 0x305F,
      0x003A, 0x0020]"

definition txt_check_settings_url :: jsstring where
  "txt_check_settings_url =
     [0x000A, 0x000A, 0x8A2D, 0x5B9A, 0x3092, 0x78BA, 0x8A8D, 0x3057, 0x3066, 0x304F,
      0x3060, 0x3055, 0x3044, 0xFF1A, 0x000A, 0x30FB, 0x0041, 0x0050, 0x0049, 0x0020,
      0x0055, 0x0052, 0x004C, 0x003A, 0x0020]"

definition txt_model_name :: jsstring where
  "txt_model_name = [0x000A, 0x30FB, 0x30E2, 0x30C7, 0x30EB, 0x540D, 0x003A, 0x0020]"

definition txt_saved_url :: jsstring where
  "txt_saved_url =
     [0x8A2D, 0x5B9A, 0x3092, 0x4FDD, 0x5B58, 0x3057, 0x307E, 0x3057, 0x305F, 0x000A,
      0x30FB, 0x0041, 0x0050, 0x0049, 0x0020, 0x0055, 0x0052, 0x004C, 0x003A, 0x0020]"

definition txt_reset_url :: jsstring where
  "txt_reset_url =
     [0x8A2D, 0x5B9A, 0x3092, 0x30C7, 0x30D5, 0x30A9, 0x30EB, 0x30C8, 0x306B, 0x623B,
      0x3057, 0x307E, 0x3057, 0x305F, 0x000A, 0x30FB, 0x0041, 0x0050, 0x0049, 0x0020,
      0x0055, 0x0052, 0x004C, 0x003A, 0x0020]"

definition txt_save_failed :: jsstring where
  "txt_save_failed =
     [0x8A2D, 0x5B9A, 0x306E, 0x4FDD, 0x5B58, 0x306B, 0x5931, 0x6557, 0x3057, 0x307E,
      0x3057, 0x305F]"

definition txt_connected_url :: jsstring where
  "txt_connected_url =
     [0x63A5, 0x7D9A, 0x6210, 0x529F, 0xFF01, 0x000A, 0x000A, 0x0041, 0x0050, 0x0049,
      0x0020, 0x0055, 0x0052, 0x004C, 0x003A, 0x0020]"

definition txt_conn_error_url :: jsstring where
  "txt_conn_error_url =
     [0x63A5, 0x7D9A, 0x30A8, 0x30E9, 0x30FC, 0x000A, 0x000A, 0x0041, 0x0050, 0x0049,
      0x0020, 0x0055, 0x0052, 0x004C, 0x003A, 0x0020]"

definition txt_error_detail :: jsstring where
  "txt_error_detail = [0x000A, 0x30A8, 0x30E9, 0x30FC, 0x5185, 0x5BB9, 0x003A, 0x0020]"

definition txt_check_settings :: jsstring where
  "txt_check_settings =
     [0x000A, 0x000A, 0x8A2D, 0x5B9A, 0x3092, 0x78BA, 0x8A8D, 0x3057, 0x3066, 0x304F,
      0x3060, 0x3055, 0x3044, 0x3002]"

definition txt_alert_conn_error :: jsstring where
  "txt_alert_conn_error = [0x63A5, 0x7D9A, 0x30A8, 0x30E9, 0x30FC, 0x003A, 0x0020]"

definition msg_unknown :: jsstring where
  "msg_unknown = [0x4E0D, 0x660E]"

definition txt_listing_connected_url :: jsstring where
  "txt_listing_connected_url =
     [0x2705, 0x0020, 0x63A5, 0x7D9A, 0x6210, 0x529F, 0xFF01, 0x000A, 0x000A, 0x0041,
      0x0050, 0x0049, 0x0020, 0x0055, 0x0052, 0x004C, 0x003A, 0x0020]"

definition txt_model_count :: jsstring where
  "txt_model_count =
     [0x000A, 0x5229, 0x7528, 0x53EF, 0x80FD, 0x306A, 0x30E2, 0x30C7, 0x30EB, 0x6570,
      0x003A, 0x0020]"

definition txt_model_list :: jsstring where
  "txt_model_list = [0x000A, 0x30E2, 0x30C7, 0x30EB, 0x4E00, 0x89A7, 0x003A, 0x0020]"

definition txt_none :: jsstring where
  "txt_none = [0x306A, 0x3057]"

definition txt_listing_conn_error_url :: jsstring where
  "txt_listing_conn_error_url =
     [0x274C, 0x0020, 0x63A5, 0x7D9A, 0x30A8, 0x30E9, 0x30FC, 0x000A, 0x000A, 0x0041,
      0x0050, 0x0049, 0x0020, 0x0055, 0x0052, 0x004C, 0x003A, 0x0020]"

section \<open>The conversation controller with the settings panel\<close>

text \<open>
  \<open>unnamed/part_000\<close> holds three components with a settings panel (lines 1 to 367, 368
  to 923 and 924 to 1308). Their state and their functions are the same, statement for
  statement, but for the continuation of the connection test: the first two write the
  short texts (\<open>testConnection_end\<close>, lines 192 to 211 and 554 to 573), the third lists
  the models the server returned (\<open>testConnection_end_listing\<close>, lines 1116 to 1138).
  An \<open>async\<close> function is split where it awaits the bridge: \<open>_begin\<close> is what runs before
  the \<open>await\<close> and returns the descriptor it dispatches, if any; \<open>_end\<close> is what runs
  once the bridge has resolved or rejected, on the state as it is then. The configuration
  that \<open>_end\<close> takes is the \<open>config\<close> the closure captured when the function was called.
\<close>

text \<open>\<open>x || d\<close> on strings: the empty string is falsy.\<close>

definition or_default :: "jsstring \<Rightarrow> jsstring \<Rightarrow> jsstring" where
  "or_default x d = (if x = [] then d else x)"

text \<open>\<open>error instanceof Error ? error.message : '...'\<close>\<close>

definition error_text :: "thrown \<Rightarrow> jsstring" where
  "error_text e = (case e of JsError m \<Rightarrow> m | NotAnError \<Rightarrow> msg_unknown_error)"

text \<open>
  \<open>if (response.type === 'json' && response.data) {...} else { throw new Error(msg) }\<close>
  inside the \<open>try\<close>: the data that passes the test, or what the \<open>catch\<close> receives.
\<close>

definition accepted :: "jsstring \<Rightarrow> relay_outcome \<Rightarrow> thrown + json" where
  "accepted msg out =
     (case out of
        Rejected e \<Rightarrow> Inl e
      | Resolved r \<Rightarrow>
          if type_tag r = js ''json'' \<and> truthy (data r) then Inr (data r)
          else Inl (JsError msg))"

text \<open>\<open>response.data.choices[0]?.message?.content || '...'\<close>, for truthy \<open>response.data\<close>.\<close>

definition reply_content :: "json \<Rightarrow> thrown + json" where
  "reply_content d =
     (case property (js ''choices'') d of
        None \<Rightarrow> Inl (cannot_read (js ''undefined'') (js ''0''))
      | Some JNull \<Rightarrow> Inl (cannot_read (js ''null'') (js ''0''))
      | Some choices \<Rightarrow>
          Inr (or_else
                 (optional_prop (js ''content'') (optional_prop (js ''message'') (index0 choices)))
                 (JStr msg_empty_response)))"

definition chat_reply :: "relay_outcome \<Rightarrow> thrown + json" where
  "chat_reply out =
     (case accepted msg_invalid_format out of Inl e \<Rightarrow> Inl e | Inr d \<Rightarrow> reply_content d)"

definition conversationHistory :: "Message list \<Rightarrow> json list" where
  "conversationHistory ms =
     map (\<lambda>msg. JObj [(js ''role'', JStr (role_text (role msg))), (js ''content'', content msg)]) ms"

definition chat_descriptor :: "jsstring \<Rightarrow> LMStudioConfig \<Rightarrow> Message list \<Rightarrow> descriptor" where
  "chat_descriptor url c ms =
     \<lparr>endpoint = url,
      http_method = js ''POST'',
      body = Some (JObj
        [(js ''model'', JStr (model c)),
         (js ''messages'', JArr (conversationHistory ms)),
         (js ''temperature'', JNum (7 / 10)),
         (js ''max_tokens'', JNum 1000),
         (js ''stream'', JBool False)])\<rparr>"

definition apiUrl :: "LMStudioConfig \<Rightarrow> jsstring" where
  "apiUrl c =
     (if endsWith (baseUrl c) (js ''/'') then baseUrl c @ js ''v1/chat/completions''
      else baseUrl c @ js ''/v1/chat/completions'')"

definition modelsUrl :: "LMStudioConfig \<Rightarrow> jsstring" where
  "modelsUrl c =
     (if endsWith (baseUrl c) (js ''/'') then baseUrl c @ js ''v1/models''
      else baseUrl c @ js ''/v1/models'')"

definition userMessage :: "clock \<Rightarrow> jsstring \<Rightarrow> Message" where
  "userMessage clk text =
     \<lparr>id_msg = toString (Date_now clk), role = user, content = JStr (trim text),
      timestamp = new_Date clk\<rparr>"

definition sendMessage_begin :: "clock \<Rightarrow> state \<Rightarrow> state \<times> descriptor option" where
  "sendMessage_begin clk s =
     (if trim (input s) = [] \<or> isLoading s then (s, None)
      else
        (s\<lparr>messages := messages s @ [userMessage clk (input s)], input := [], isLoading := True\<rparr>,
         Some (chat_descriptor (apiUrl (config s)) (config s)
                 (messages s @ [userMessage clk (input s)]))))"

definition assistantMessage :: "clock \<Rightarrow> json \<Rightarrow> Message" where
  "assistantMessage clk c =
     \<lparr>id_msg = toString (Date_now clk + 1), role = assistant, content = c,
      timestamp = new_Date clk\<rparr>"

definition errorMessage :: "LMStudioConfig \<Rightarrow> clock \<Rightarrow> thrown \<Rightarrow> Message" where
  "errorMessage c clk e =
     \<lparr>id_msg = toString (Date_now clk + 1), role = assistant,
      content = JStr (txt_error_occurred @ error_text e @ txt_check_settings_url @ baseUrl c
                      @ txt_model_name @ model c),
      timestamp = new_Date clk\<rparr>"

definition sendMessage_end :: "LMStudioConfig \<Rightarrow> clock \<Rightarrow> relay_outcome \<Rightarrow> state \<Rightarrow> state" where
  "sendMessage_end c clk out s =
     (case chat_reply out of
        Inr v \<Rightarrow> s\<lparr>messages := messages s @ [assistantMessage clk v], isLoading := False\<rparr>
      | Inl e \<Rightarrow> s\<lparr>messages := messages s @ [errorMessage c clk e], isLoading := False\<rparr>)"

definition clearChat :: "state \<Rightarrow> state" where
  "clearChat s = s\<lparr>messages := []\<rparr>"

definition testConnection_begin :: "state \<Rightarrow> state \<times> descriptor option" where
  "testConnection_begin s =
     (s\<lparr>isLoading := True\<rparr>,
      Some \<lparr>endpoint = modelsUrl (config s), http_method = js ''GET'', body = None\<rparr>)"

text \<open>
  The continuation of the connection test in the first two components, with the two
  entries it can append.
\<close>

definition connectionMessage :: "LMStudioConfig \<Rightarrow> clock \<Rightarrow> Message" where
  "connectionMessage c clk =
     \<lparr>id_msg = toString (Date_now clk), role = assistant,
      content = JStr (txt_connected_url @ baseUrl c), timestamp = new_Date clk\<rparr>"

definition connectionErrorMessage :: "LMStudioConfig \<Rightarrow> clock \<Rightarrow> thrown \<Rightarrow> Message" where
  "connectionErrorMessage c clk e =
     \<lparr>id_msg = toString (Date_now clk), role = assistant,
      content = JStr (txt_conn_error_url @ baseUrl c @ txt_error_detail @ error_text e
                      @ txt_check_settings),
      timestamp = new_Date clk\<rparr>"

definition testConnection_end :: "LMStudioConfig \<Rightarrow> clock \<Rightarrow> relay_outcome \<Rightarrow> state \<Rightarrow> state" where
  "testConnection_end c clk out s =
     (case accepted msg_invalid_response out of
        Inr v \<Rightarrow> s\<lparr>messages := messages s @ [connectionMessage c clk], isLoading := False\<rparr>
      | Inl e \<Rightarrow> s\<lparr>messages := messages s @ [connectionErrorMessage c clk e], isLoading := False\<rparr>)"

text \<open>
  The connection test of the third component. \<open>model_name\<close> is the function mapped over
  the models, \<open>m.id || m.name || '...'\<close>; reading \<open>id\<close> of a \<open>null\<close> element throws.
  \<open>listing\<close> is \<open>models.map(...).join(', ')\<close> together with \<open>models.length\<close>: only an
  array has a \<open>map\<close> that can be called, any other value of \<open>models\<close> throws.
\<close>

definition model_name :: "json \<Rightarrow> thrown + json" where
  "model_name m =
     (if m = JNull then Inl (cannot_read (js ''null'') (js ''id''))
      else Inr (or_else (property (js ''id'') m)
                  (or_else (property (js ''name'') m) (JStr msg_unknown))))"

definition listing :: "(rat \<Rightarrow> jsstring) \<Rightarrow> json \<Rightarrow> thrown + nat \<times> jsstring" where
  "listing numText models =
     (case models of
        JArr xs \<Rightarrow>
          (case collect (map model_name xs) of
             Inl e \<Rightarrow> Inl e
           | Inr names \<Rightarrow>
               (case join_array numText (js '', '') names of
                  Inl e \<Rightarrow> Inl e
                | Inr modelList \<Rightarrow> Inr (length xs, modelList)))
      | _ \<Rightarrow> Inl (JsError (js ''models.map is not a function'')))"

definition connectionMessage_listing :: "LMStudioConfig \<Rightarrow> clock \<Rightarrow> nat \<Rightarrow> jsstring \<Rightarrow> Message" where
  "connectionMessage_listing c clk n modelList =
     \<lparr>id_msg = toString (Date_now clk), role = assistant,
      content = JStr (txt_listing_connected_url @ baseUrl c @ txt_model_count @ toString (int n)
                      @ txt_model_list @ or_default modelList txt_none),
      timestamp = new_Date clk\<rparr>"

definition connectionErrorMessage_listing :: "LMStudioConfig \<Rightarrow> clock \<Rightarrow> thrown \<Rightarrow> Message" where
  "connectionErrorMessage_listing c clk e =
     \<lparr>id_msg = toString (Date_now clk), role = assistant,
      content = JStr (txt_listing_conn_error_url @ baseUrl c @ txt_error_detail @ error_text e
                      @ txt_check_settings),
      timestamp = new_Date clk\<rparr>"

definition testConnection_end_listing ::
  "(rat \<Rightarrow> jsstring) \<Rightarrow> LMStudioConfig \<Rightarrow> clock \<Rightarrow> relay_outcome \<Rightarrow> state \<Rightarrow> state" where
  "testConnection_end_listing numText c clk out s =
     (case (case accepted msg_invalid_response out of
              Inl e \<Rightarrow> Inl e
            | Inr d \<Rightarrow> listing numText (or_else (property (js ''data'') d) (JArr []))) of
        Inr (n, modelList) \<Rightarrow>
          s\<lparr>messages := messages s @ [connectionMessage_listing c clk n modelList],
            isLoading := False\<rparr>
      | Inl e \<Rightarrow>
          s\<lparr>messages := messages s @ [connectionErrorMessage_listing c clk e],
            isLoading := False\<rparr>)"

definition finalConfig :: "LMStudioConfig \<Rightarrow> LMStudioConfig" where
  "finalConfig t =
     \<lparr>baseUrl = or_default (trim (baseUrl t)) (baseUrl DEFAULT_CONFIG),
      model = or_default (trim (model t)) (model DEFAULT_CONFIG)\<rparr>"

definition successMessage :: "clock \<Rightarrow> LMStudioConfig \<Rightarrow> Message" where
  "successMessage clk c =
     \<lparr>id_msg = toString (Date_now clk), role = assistant,
      content = JStr (txt_saved_url @ baseUrl c @ txt_model_name @ model c),
      timestamp = new_Date clk\<rparr>"

text \<open>
  \<open>saveConfig\<close>. Whether \<open>localStorage.setItem\<close> throws (a full or disabled store) is the
  environment's choice, the first argument; \<open>setConfig\<close> has been called before it, the
  rest of the \<open>try\<close> comes after it.
\<close>

definition saveConfig :: "bool \<Rightarrow> clock \<Rightarrow> state \<Rightarrow> state" where
  "saveConfig setItem_ok clk s =
     (if setItem_ok then
        s\<lparr>config := finalConfig (tempConfig s),
          stored := Some (finalConfig (tempConfig s)),
          showConfig := False,
          messages := messages s @ [successMessage clk (finalConfig (tempConfig s))]\<rparr>
      else
        s\<lparr>config := finalConfig (tempConfig s),
          alerts := alerts s @ [Alert_text txt_save_failed]\<rparr>)"

definition resetMessage :: "clock \<Rightarrow> Message" where
  "resetMessage clk =
     \<lparr>id_msg = toString (Date_now clk), role = assistant,
      content = JStr (txt_reset_url @ baseUrl DEFAULT_CONFIG @ txt_model_name
                      @ model DEFAULT_CONFIG),
      timestamp = new_Date clk\<rparr>"

definition resetConfig :: "clock \<Rightarrow> state \<Rightarrow> state" where
  "resetConfig clk s =
     s\<lparr>tempConfig := DEFAULT_CONFIG, config := DEFAULT_CONFIG, stored := None,
       messages := messages s @ [resetMessage clk]\<rparr>"

definition toggleConfigPanel :: "state \<Rightarrow> state" where
  "toggleConfigPanel s =
     (if \<not> showConfig s then s\<lparr>tempConfig := config s, showConfig := True\<rparr>
      else s\<lparr>showConfig := False\<rparr>)"

text \<open>
  \<open>testConnection\<close> is called from one place in each component, the button
  \<open><button onClick={testConnection} disabled={isLoading}>\<close> (lines 233, 700 and 1161; line
  141 of \<open>src/App.tsx\<close>). A disabled button raises no click event, so invoking the
  connection test is a click on that button.
\<close>

definition click_testConnection :: "state \<Rightarrow> state \<times> descriptor option" where
  "click_testConnection s = (if isLoading s then (s, None) else testConnection_begin s)"

section \<open>The conversation controller of \<open>src/App.tsx\<close>\<close>

text \<open>
  The component of \<open>src/App.tsx\<close> has no settings panel of its own state: the two inputs
  write \<open>config\<close> directly, the endpoint is the plain concatenation, the error entry
  carries the error text only, and the connection test reports through \<open>alert\<close>.
\<close>

definition sendMessage_app_begin :: "clock \<Rightarrow> basic_state \<Rightarrow> basic_state \<times> descriptor option" where
  "sendMessage_app_begin clk s =
     (if trim (input s) = [] \<or> isLoading s then (s, None)
      else
        (s\<lparr>messages := messages s @ [userMessage clk (input s)], input := [], isLoading := True\<rparr>,
         Some (chat_descriptor (baseUrl (config s) @ js ''/v1/chat/completions'') (config s)
                 (messages s @ [userMessage clk (input s)]))))"

definition errorMessage_app :: "clock \<Rightarrow> thrown \<Rightarrow> Message" where
  "errorMessage_app clk e =
     \<lparr>id_msg = toString (Date_now clk + 1), role = assistant,
      content = JStr (txt_error_occurred @ error_text e), timestamp = new_Date clk\<rparr>"

definition sendMessage_app_end :: "clock \<Rightarrow> relay_outcome \<Rightarrow> basic_state \<Rightarrow> basic_state" where
  "sendMessage_app_end clk out s =
     (case chat_reply out of
        Inr v \<Rightarrow> s\<lparr>messages := messages s @ [assistantMessage clk v], isLoading := False\<rparr>
      | Inl e \<Rightarrow> s\<lparr>messages := messages s @ [errorMessage_app clk e], isLoading := False\<rparr>)"

definition clearChat_app :: "basic_state \<Rightarrow> basic_state" where
  "clearChat_app s = s\<lparr>messages := []\<rparr>"

definition testConnection_app_begin :: "basic_state \<Rightarrow> basic_state \<times> descriptor option" where
  "testConnection_app_begin s =
     (s\<lparr>isLoading := True\<rparr>,
      Some \<lparr>endpoint = baseUrl (config s) @ js ''/v1/models'', http_method = js ''GET'',
            body = None\<rparr>)"

text \<open>\<open>response.data.data?.length || 0\<close>, for truthy \<open>response.data\<close>.\<close>

definition models_count :: "json \<Rightarrow> json" where
  "models_count d =
     or_else
       (case property (js ''data'') d of
          None \<Rightarrow> None
        | Some JNull \<Rightarrow> None
        | Some v \<Rightarrow> length_prop v)
       (JNum 0)"

definition testConnection_app_end :: "relay_outcome \<Rightarrow> basic_state \<Rightarrow> basic_state" where
  "testConnection_app_end out s =
     (case accepted msg_invalid_response out of
        Inr d \<Rightarrow> s\<lparr>alerts := alerts s @ [Alert_models (models_count d)], isLoading := False\<rparr>
      | Inl e \<Rightarrow>
          s\<lparr>alerts := alerts s @ [Alert_text (txt_alert_conn_error @ error_text e)],
            isLoading := False\<rparr>)"

definition click_testConnection_app :: "basic_state \<Rightarrow> basic_state \<times> descriptor option" where
  "click_testConnection_app s = (if isLoading s then (s, None) else testConnection_app_begin s)"

section \<open>The relay of the main process\<close>

text \<open>
  The handler of \<open>call-lm-studio-api\<close> (\<open>unnamed/part_001\<close>). \<open>fetch\<close> and the server are
  the environment: the handler builds the request, and what \<open>fetch\<close> and then
  \<open>response.json()\<close> do with it is an input of the model. \<open>req_body\<close> is the value whose
  \<open>JSON.stringify\<close> text is sent; \<open>json_body\<close> is the outcome of \<open>response.json()\<close>, the
  decoded body or the error it rejects with.
\<close>

record fetch_request =
  url :: jsstring
  req_method :: jsstring
  headers :: "(jsstring \<times> jsstring) list"
  req_body :: "json option"

record http_response =
  status :: nat
  json_body :: "thrown + json"

datatype fetch_outcome = Fetch_rejected thrown | Fetch_resolved http_response

text \<open>\<open>response.ok\<close>: the status is in the range 200 to 299.\<close>

definition ok :: "http_response \<Rightarrow> bool" where
  "ok r = (200 \<le> status r \<and> status r \<le> 299)"

definition relay_request :: "descriptor \<Rightarrow> fetch_request" where
  "relay_request d =
     \<lparr>url = endpoint d,
      req_method = http_method d,
      headers = [(js ''Content-Type'', js ''application/json'')],
      req_body = (if truthy_opt (body d) then body d else None)\<rparr>"

definition relay_result :: "fetch_outcome \<Rightarrow> thrown + response" where
  "relay_result f =
     (case f of
        Fetch_rejected e \<Rightarrow> Inl e
      | Fetch_resolved r \<Rightarrow>
          if \<not> ok r then Inl (JsError (js ''HTTP error! status: '' @ toString (int (status r))))
          else (case json_body r of
                  Inl e \<Rightarrow> Inl e
                | Inr d \<Rightarrow> Inr \<lparr>type_tag = js ''json'', data = d\<rparr>))"

definition call_lm_studio_api :: "(fetch_request \<Rightarrow> fetch_outcome) \<Rightarrow> descriptor \<Rightarrow> thrown + response" where
  "call_lm_studio_api fetch d = relay_result (fetch (relay_request d))"

text \<open>The two conditions under which the specification lets the relay raise.\<close>

definition non_success_status :: "fetch_outcome \<Rightarrow> bool" where
  "non_success_status f = (case f of Fetch_rejected e \<Rightarrow> False | Fetch_resolved r \<Rightarrow> \<not> ok r)"

definition body_fails_to_parse :: "fetch_outcome \<Rightarrow> bool" where
  "body_fails_to_parse f =
     (case f of Fetch_rejected e \<Rightarrow> False | Fetch_resolved r \<Rightarrow> ok r \<and> isl (json_body r))"

section \<open>Running an operation against a mocked relay\<close>

text \<open>
  \<open>sendMessage\<close> called in isolation: nothing else happens between the dispatch and the
  answer, which the mocked relay computes from the descriptor.
\<close>

definition sendMessage :: "(descriptor \<Rightarrow> relay_outcome) \<Rightarrow> clock \<Rightarrow> clock \<Rightarrow> state \<Rightarrow> state" where
  "sendMessage relay clk clk' s =
     (case sendMessage_begin clk s of
        (s1, None) \<Rightarrow> s1
      | (s1, Some d) \<Rightarrow> sendMessage_end (config s) clk' (relay d) s1)"

definition sendMessage_app ::
  "(descriptor \<Rightarrow> relay_outcome) \<Rightarrow> clock \<Rightarrow> clock \<Rightarrow> basic_state \<Rightarrow> basic_state" where
  "sendMessage_app relay clk clk' s =
     (case sendMessage_app_begin clk s of
        (s1, None) \<Rightarrow> s1
      | (s1, Some d) \<Rightarrow> sendMessage_app_end clk' (relay d) s1)"

text \<open>\<open>s.includes(t)\<close>\<close>

fun includes_str :: "jsstring \<Rightarrow> jsstring \<Rightarrow> bool" where
  "includes_str [] t = (t = [])"
| "includes_str (c # cs) t = (take (length t) (c # cs) = t \<or> includes_str cs t)"

text \<open>The \<open>messages\<close> array in the body of a request.\<close>

definition request_messages :: "descriptor \<Rightarrow> json list" where
  "request_messages d =
     (case body d of
        Some (JObj kvs) \<Rightarrow> (case map_of kvs (js ''messages'') of Some (JArr xs) \<Rightarrow> xs | _ \<Rightarrow> [])
      | _ \<Rightarrow> [])"

text \<open>The \<open>{role, content}\<close> pair of a transcript entry.\<close>

definition role_content :: "Message \<Rightarrow> json" where
  "role_content m = JObj [(js ''role'', JStr (role_text (role m))), (js ''content'', content m)]"

text \<open>
  The state after mounting: \<open>config\<close> is read from the stored item when there is one,
  each field falling back to its default when it is empty.
\<close>

definition initial_config :: "LMStudioConfig option \<Rightarrow> LMStudioConfig" where
  "initial_config item =
     (case item of
        None \<Rightarrow> DEFAULT_CONFIG
      | Some parsed \<Rightarrow>
          \<lparr>baseUrl = or_default (baseUrl parsed) (baseUrl DEFAULT_CONFIG),
           model = or_default (model parsed) (model DEFAULT_CONFIG)\<rparr>)"

definition initial_state :: "LMStudioConfig option \<Rightarrow> state" where
  "initial_state item =
     \<lparr>messages = [], input = [], isLoading = False, config = initial_config item,
      showConfig = False, alerts = [], tempConfig = initial_config item, stored = item\<rparr>"

definition initial_state_app :: basic_state where
  "initial_state_app =
     \<lparr>messages = [], input = [], isLoading = False, config = DEFAULT_CONFIG,
      showConfig = False, alerts = []\<rparr>"

definition fetch_rejects :: "fetch_outcome \<Rightarrow> bool" where
  "fetch_rejects f = (case f of Fetch_rejected e \<Rightarrow> True | Fetch_resolved r \<Rightarrow> False)"

text \<open>A \<open>fetch\<close> that cannot reach the server: it rejects, and there is no response.\<close>

definition fetch_refused :: "fetch_request \<Rightarrow> fetch_outcome" where
  "fetch_refused q = Fetch_rejected (JsError (js ''fetch failed''))"

text \<open>A mocked relay that rejects every call with the error of an HTTP status 500.\<close>

definition relay_500 :: "descriptor \<Rightarrow> relay_outcome" where
  "relay_500 d = Rejected (JsError (js ''HTTP error! status: 500''))"

text \<open>A mocked relay that answers every call with one choice whose content is \<open>hi\<close>.\<close>

definition relay_hi :: "descriptor \<Rightarrow> relay_outcome" where
  "relay_hi d =
     Resolved \<lparr>type_tag = js ''json'',
       data = JObj [(js ''choices'',
         JArr [JObj [(js ''message'', JObj [(js ''content'', JStr (js ''hi''))])]])]\<rparr>"

section \<open>Sequences of operations\<close>

text \<open>
  Everything that can happen to a component with the settings panel, one constructor per
  handler or continuation; a continuation carries the configuration its closure captured.
  The connection test settles by \<open>TestConnection_settled\<close> in the first two components
  and by \<open>TestConnection_listing_settled\<close>, which also carries the engine's conversion of
  a number to text, in the third. \<open>run\<close> applies a sequence of operations in order, in
  any interleaving.
\<close>

datatype op =
    SendMessage clock
  | SendMessage_settled LMStudioConfig clock relay_outcome
  | TestConnection
  | TestConnection_settled LMStudioConfig clock relay_outcome
  | TestConnection_listing_settled "rat \<Rightarrow> jsstring" LMStudioConfig clock relay_outcome
  | SaveConfig bool clock
  | ResetConfig clock
  | ClearChat
  | ToggleConfigPanel
  | CancelConfig
  | SetInput jsstring
  | SetTempConfig LMStudioConfig

fun apply_op :: "op \<Rightarrow> state \<Rightarrow> state" where
  "apply_op (SendMessage clk) s = fst (sendMessage_begin clk s)"
| "apply_op (SendMessage_settled c clk out) s = sendMessage_end c clk out s"
| "apply_op TestConnection s = fst (testConnection_begin s)"
| "apply_op (TestConnection_settled c clk out) s = testConnection_end c clk out s"
| "apply_op (TestConnection_listing_settled numText c clk out) s =
     testConnection_end_listing numText c clk out s"
| "apply_op (SaveConfig setItem_ok clk) s = saveConfig setItem_ok clk s"
| "apply_op (ResetConfig clk) s = resetConfig clk s"
| "apply_op ClearChat s = clearChat s"
| "apply_op ToggleConfigPanel s = toggleConfigPanel s"
| "apply_op CancelConfig s = s\<lparr>showConfig := False\<rparr>"
| "apply_op (SetInput v) s = s\<lparr>input := v\<rparr>"
| "apply_op (SetTempConfig t) s = s\<lparr>tempConfig := t\<rparr>"

fun run :: "op list \<Rightarrow> state \<Rightarrow> state" where
  "run [] s = s"
| "run (x # xs) s = run xs (apply_op x s)"

text \<open>The same for the component of \<open>src/App.tsx\<close>.\<close>

datatype op_app =
    SendMessage_app clock
  | SendMessage_app_settled clock relay_outcome
  | TestConnection_app
  | TestConnection_app_settled relay_outcome
  | ClearChat_app
  | ToggleConfig_app
  | SetInput_app jsstring
  | SetConfig_app LMStudioConfig

fun apply_op_app :: "op_app \<Rightarrow> basic_state \<Rightarrow> basic_state" where
  "apply_op_app (SendMessage_app clk) s = fst (sendMessage_app_begin clk s)"
| "apply_op_app (SendMessage_app_settled clk out) s = sendMessage_app_end clk out s"
| "apply_op_app TestConnection_app s = fst (testConnection_app_begin s)"
| "apply_op_app (TestConnection_app_settled out) s = testConnection_app_end out s"
| "apply_op_app ClearChat_app s = clearChat_app s"
| "apply_op_app ToggleConfig_app s = s\<lparr>showConfig := \<not> showConfig s\<rparr>"
| "apply_op_app (SetInput_app v) s = s\<lparr>input := v\<rparr>"
| "apply_op_app (SetConfig_app c) s = s\<lparr>config := c\<rparr>"

fun run_app :: "op_app list \<Rightarrow> basic_state \<Rightarrow> basic_state" where
  "run_app [] s = s"
| "run_app (x # xs) s = run_app xs (apply_op_app x s)"









section \<open>Example states\<close>

text \<open>
  The mounted component with \<open>hello\<close> typed into the input, and the state reached by
  saving the settings, running a connection test that fails, and then typing \<open>hello\<close>.
\<close>

definition hello_state :: state where
  "hello_state = (initial_state None)\<lparr>input := js ''hello''\<rparr>"

definition hello_state_app :: basic_state where
  "hello_state_app = initial_state_app\<lparr>input := js ''hello''\<rparr>"

definition notices_state :: state where
  "notices_state =
     run [ToggleConfigPanel,
          SaveConfig True \<lparr>Date_now = 1000, new_Date = 1000\<rparr>,
          TestConnection,
          TestConnection_settled DEFAULT_CONFIG \<lparr>Date_now = 1250, new_Date = 1250\<rparr>
            (Rejected (JsError (js ''fetch failed''))),
          SetInput (js ''hello'')]
       (initial_state None)"

text \<open>
  A conversion of a number to text for the examples: the decimal digits of a whole number.
\<close>

definition whole_number_text :: "rat \<Rightarrow> jsstring" where
  "whole_number_text r = toString \<lfloor>r\<rfloor>"

section \<open>Facts about strings and numbers\<close>

lemma trim_hello: "trim (js ''hello'') = js ''hello''" "js ''hello'' \<noteq> []"
  by (simp_all add: trim_def isWhiteSpace_def js_def)

lemma key_messages: "js ''model'' \<noteq> js ''messages''" "js ''messages'' \<noteq> js ''model''"
  by (simp_all add: js_def)

lemma toString_examples:
  "toString 500 = js ''500''" "toString 1000 = js ''1000''" "toString 1251 = js ''1251''"
  "toString 1500 = js ''1500''"
  by (simp_all add: toString_def toString_nat.simps js_def)

lemma includes_str_prefix: "includes_str (t @ ys) t"
proof (cases "t @ ys")
  case Nil
  then show ?thesis by simp
next
  case (Cons a list)
  have "take (length t) (a # list) = t"
    by (simp add: Cons [symmetric])
  then have "includes_str (a # list) t"
    by simp
  with Cons show ?thesis by simp
qed

lemma includes_str_append: "includes_str (xs @ t @ ys) t"
proof (induction xs)
  case Nil
  show ?case by (simp add: includes_str_prefix)
next
  case (Cons x xs)
  then show ?case by simp
qed








section \<open>The busy flag\<close>

text \<open>
  C1: in every state in which the busy flag is set, invoking a send or the connection
  test is a no-op: the whole state, and with it the transcript, is what it was, and no
  descriptor is dispatched. \<open>sendMessage\<close> returns at once when it finds the flag set;
  the connection test is invoked through its button alone, which is disabled while the
  flag is set. This holds in every component.
\<close>

theorem busy_drops_send_and_test_click:
  assumes "isLoading s" and "isLoading b"
  shows "sendMessage_begin clk s = (s, None) \<and> click_testConnection s = (s, None)
       \<and> sendMessage_app_begin clk b = (b, None) \<and> click_testConnection_app b = (b, None)"
  using assms
  by (simp add: sendMessage_begin_def click_testConnection_def sendMessage_app_begin_def
      click_testConnection_app_def)

theorem busy_drops_send_and_test_click_witness:
  "isLoading ((initial_state None)\<lparr>input := js ''hello'', isLoading := True\<rparr>)
   \<and> isLoading (initial_state_app\<lparr>input := js ''hello'', isLoading := True\<rparr>)
   \<and> snd (sendMessage_begin \<lparr>Date_now = 1000, new_Date = 1000\<rparr>
             ((initial_state None)\<lparr>input := js ''hello'', isLoading := True\<rparr>)) = None
   \<and> snd (click_testConnection
             ((initial_state None)\<lparr>input := js ''hello'', isLoading := True\<rparr>)) = None
   \<and> snd (sendMessage_app_begin \<lparr>Date_now = 1000, new_Date = 1000\<rparr>
             (initial_state_app\<lparr>input := js ''hello'', isLoading := True\<rparr>)) = None
   \<and> snd (click_testConnection_app
             (initial_state_app\<lparr>input := js ''hello'', isLoading := True\<rparr>)) = None"
proof -
  have h1: "isLoading ((initial_state None)\<lparr>input := js ''hello'', isLoading := True\<rparr>)"
    by simp
  have h2: "isLoading (initial_state_app\<lparr>input := js ''hello'', isLoading := True\<rparr>)"
    by simp
  show ?thesis
    using h1 h2 busy_drops_send_and_test_click [OF h1 h2, of "\<lparr>Date_now = 1000, new_Date = 1000\<rparr>"]
    by simp
qed

section \<open>What a send appends\<close>

lemma sendMessage_end_append:
  "messages (sendMessage_end c clk out s) =
     messages s @ [case chat_reply out of Inr v \<Rightarrow> assistantMessage clk v
                   | Inl e \<Rightarrow> errorMessage c clk e]"
  by (simp add: sendMessage_end_def split: sum.splits)

lemma sendMessage_app_end_append:
  "messages (sendMessage_app_end clk out s) =
     messages s @ [case chat_reply out of Inr v \<Rightarrow> assistantMessage clk v
                   | Inl e \<Rightarrow> errorMessage_app clk e]"
  by (simp add: sendMessage_app_end_def split: sum.splits)

lemma reply_role:
  "role (case r of Inr v \<Rightarrow> assistantMessage clk v | Inl e \<Rightarrow> errorMessage c clk e) = assistant"
  "role (case r of Inr v \<Rightarrow> assistantMessage clk v | Inl e \<Rightarrow> errorMessage_app clk e) = assistant"
  by (simp_all add: assistantMessage_def errorMessage_def errorMessage_app_def split: sum.splits)

lemma chat_reply_Rejected: "chat_reply (Rejected e) = Inl e"
  by (simp add: chat_reply_def accepted_def)

lemma chat_reply_hi: "chat_reply (relay_hi d) = Inr (JStr (js ''hi''))"
  by (simp add: chat_reply_def accepted_def relay_hi_def reply_content_def or_else_def js_def)

text \<open>
  The test of the specification (P6): with a relay that answers \<open>hi\<close>, sending \<open>hello\<close>
  from the mounted state leaves a transcript of exactly the user entry and the reply.
\<close>

lemma sendMessage_hello_hi:
  "messages (sendMessage relay_hi \<lparr>Date_now = 1000, new_Date = 1000\<rparr>
      \<lparr>Date_now = 1250, new_Date = 1250\<rparr> ((initial_state None)\<lparr>input := js ''hello''\<rparr>)) =
     [\<lparr>id_msg = js ''1000'', role = user, content = JStr (js ''hello''), timestamp = 1000\<rparr>,
      \<lparr>id_msg = js ''1251'', role = assistant, content = JStr (js ''hi''), timestamp = 1250\<rparr>]"
  by (simp add: sendMessage_def sendMessage_begin_def sendMessage_end_def initial_state_def
      trim_hello userMessage_def assistantMessage_def chat_reply_hi toString_examples)

text \<open>
  C2: when the input is not blank after trimming and the busy flag is clear, \<open>sendMessage\<close>
  appends exactly one user Message holding the trimmed text as it dispatches the request;
  whatever the relay's answer (resolved or rejected, usable or not) and whatever state the
  answer finds, its continuation appends exactly one assistant Message; run in isolation,
  the transcript grows by the user Message followed by the assistant Message, so that from
  an empty transcript the assistant Message is preceded by its user Message. This holds
  in both components.
\<close>

theorem sendMessage_appends_user_then_assistant:
  assumes "trim (input s) \<noteq> []" and "\<not> isLoading s"
      and "trim (input b) \<noteq> []" and "\<not> isLoading b"
  shows
    "(\<exists>d. sendMessage_begin clk s =
         (s\<lparr>messages := messages s @ [userMessage clk (input s)], input := [], isLoading := True\<rparr>,
          Some d))
   \<and> role (userMessage clk (input s)) = user
   \<and> content (userMessage clk (input s)) = JStr (trim (input s))
   \<and> (\<exists>a. role a = assistant
          \<and> messages (sendMessage_end c clk' out s') = messages s' @ [a])
   \<and> (\<exists>a. role a = assistant
          \<and> messages (sendMessage relay clk clk' s) = messages s @ [userMessage clk (input s), a])
   \<and> (\<exists>d. sendMessage_app_begin clk b =
         (b\<lparr>messages := messages b @ [userMessage clk (input b)], input := [], isLoading := True\<rparr>,
          Some d))
   \<and> role (userMessage clk (input b)) = user
   \<and> content (userMessage clk (input b)) = JStr (trim (input b))
   \<and> (\<exists>a. role a = assistant
          \<and> messages (sendMessage_app_end clk' out b') = messages b' @ [a])
   \<and> (\<exists>a. role a = assistant
          \<and> messages (sendMessage_app relay clk clk' b) = messages b @ [userMessage clk (input b), a])"
proof -
  have bg: "\<exists>d. sendMessage_begin clk s =
         (s\<lparr>messages := messages s @ [userMessage clk (input s)], input := [], isLoading := True\<rparr>,
          Some d)"
    using assms(1,2) by (simp add: sendMessage_begin_def)
  have bg_app: "\<exists>d. sendMessage_app_begin clk b =
         (b\<lparr>messages := messages b @ [userMessage clk (input b)], input := [], isLoading := True\<rparr>,
          Some d)"
    using assms(3,4) by (simp add: sendMessage_app_begin_def)
  have u: "role (userMessage clk t) = user" "content (userMessage clk t) = JStr (trim t)" for t
    by (simp_all add: userMessage_def)
  have e: "\<exists>a. role a = assistant \<and> messages (sendMessage_end c clk' out s') = messages s' @ [a]"
    using sendMessage_end_append reply_role(1) by blast
  have e_app: "\<exists>a. role a = assistant
      \<and> messages (sendMessage_app_end clk' out b') = messages b' @ [a]"
    using sendMessage_app_end_append reply_role(2) by blast
  have whole: "\<exists>a. role a = assistant
      \<and> messages (sendMessage relay clk clk' s) = messages s @ [userMessage clk (input s), a]"
  proof -
    from bg obtain d where d: "sendMessage_begin clk s =
         (s\<lparr>messages := messages s @ [userMessage clk (input s)], input := [], isLoading := True\<rparr>,
          Some d)" by blast
    show ?thesis
      by (simp add: sendMessage_def d sendMessage_end_append reply_role)
  qed
  have whole_app: "\<exists>a. role a = assistant
      \<and> messages (sendMessage_app relay clk clk' b) = messages b @ [userMessage clk (input b), a]"
  proof -
    from bg_app obtain d where d: "sendMessage_app_begin clk b =
         (b\<lparr>messages := messages b @ [userMessage clk (input b)], input := [], isLoading := True\<rparr>,
          Some d)" by blast
    show ?thesis
      by (simp add: sendMessage_app_def d sendMessage_app_end_append reply_role)
  qed
  from bg bg_app u e e_app whole whole_app show ?thesis by blast
qed

theorem sendMessage_appends_user_then_assistant_witness:
  "trim (input ((initial_state None)\<lparr>input := js ''hello''\<rparr>)) \<noteq> []
   \<and> \<not> isLoading ((initial_state None)\<lparr>input := js ''hello''\<rparr>)
   \<and> trim (input (initial_state_app\<lparr>input := js ''hello''\<rparr>)) \<noteq> []
   \<and> \<not> isLoading (initial_state_app\<lparr>input := js ''hello''\<rparr>)
   \<and> (\<exists>a. role a = assistant
        \<and> messages (sendMessage relay_hi \<lparr>Date_now = 1000, new_Date = 1000\<rparr>
              \<lparr>Date_now = 1250, new_Date = 1250\<rparr> ((initial_state None)\<lparr>input := js ''hello''\<rparr>))
          = [userMessage \<lparr>Date_now = 1000, new_Date = 1000\<rparr> (js ''hello''), a])
   \<and> (\<exists>a. role a = assistant
        \<and> messages (sendMessage_app relay_500 \<lparr>Date_now = 1000, new_Date = 1000\<rparr>
              \<lparr>Date_now = 1250, new_Date = 1250\<rparr> (initial_state_app\<lparr>input := js ''hello''\<rparr>))
          = [userMessage \<lparr>Date_now = 1000, new_Date = 1000\<rparr> (js ''hello''), a])"
proof -
  have h1: "trim (input ((initial_state None)\<lparr>input := js ''hello''\<rparr>)) \<noteq> []"
    by (simp add: trim_hello)
  have h2: "\<not> isLoading ((initial_state None)\<lparr>input := js ''hello''\<rparr>)"
    by (simp add: initial_state_def)
  have h3: "trim (input (initial_state_app\<lparr>input := js ''hello''\<rparr>)) \<noteq> []"
    by (simp add: trim_hello)
  have h4: "\<not> isLoading (initial_state_app\<lparr>input := js ''hello''\<rparr>)"
    by (simp add: initial_state_app_def)
  have m: "messages ((initial_state None)\<lparr>input := js ''hello''\<rparr>) = []"
    "messages (initial_state_app\<lparr>input := js ''hello''\<rparr>) = []"
    by (simp_all add: initial_state_def initial_state_app_def)
  from sendMessage_appends_user_then_assistant [OF h1 h2 h3 h4,
      of "\<lparr>Date_now = 1000, new_Date = 1000\<rparr>" _ "\<lparr>Date_now = 1250, new_Date = 1250\<rparr>" _ _ relay_hi]
    sendMessage_appends_user_then_assistant [OF h1 h2 h3 h4,
      of "\<lparr>Date_now = 1000, new_Date = 1000\<rparr>" _ "\<lparr>Date_now = 1250, new_Date = 1250\<rparr>" _ _ relay_500]
  show ?thesis
    using h1 h2 h3 h4 by (simp add: m)
qed

section \<open>The relay\<close>

text \<open>
  C3, as stated: the relay raises if and only if the response has a non-success status or
  the body of a successful response fails to parse. The "only if" fails: when \<open>fetch\<close>
  itself rejects (the server cannot be reached), the handler rethrows that error, and
  there is neither a status nor a body.
\<close>

theorem relay_raises_without_a_response:
  "isl (call_lm_studio_api fetch_refused
          \<lparr>endpoint = js ''http://localhost:1234/v1/models'', http_method = js ''GET'',
           body = None\<rparr>)
   \<and> \<not> non_success_status (fetch_refused (relay_request
          \<lparr>endpoint = js ''http://localhost:1234/v1/models'', http_method = js ''GET'',
           body = None\<rparr>))
   \<and> \<not> body_fails_to_parse (fetch_refused (relay_request
          \<lparr>endpoint = js ''http://localhost:1234/v1/models'', http_method = js ''GET'',
           body = None\<rparr>))"
  by (simp add: call_lm_studio_api_def relay_result_def fetch_refused_def
      non_success_status_def body_fails_to_parse_def)

text \<open>
  C3, amended: the relay raises if and only if \<open>fetch\<close> rejects, or the response has a
  non-success status, or the body of a successful response fails to parse. On a
  non-success status the error's message ends with the decimal status; a rejection of
  \<open>fetch\<close> and a parse error are rethrown as they are; otherwise the relay returns the
  decoded body tagged \<open>json\<close>.
\<close>

theorem relay_raises_iff:
  "(isl (call_lm_studio_api fetch d) \<longleftrightarrow>
      fetch_rejects (fetch (relay_request d)) \<or> non_success_status (fetch (relay_request d))
      \<or> body_fails_to_parse (fetch (relay_request d)))
   \<and> (fetch (relay_request d) = Fetch_resolved r \<and> \<not> ok r \<longrightarrow>
        call_lm_studio_api fetch d =
          Inl (JsError (js ''HTTP error! status: '' @ toString (int (status r)))))
   \<and> (fetch (relay_request d) = Fetch_resolved r \<and> ok r \<and> json_body r = Inl e \<longrightarrow>
        call_lm_studio_api fetch d = Inl e)
   \<and> (fetch (relay_request d) = Fetch_resolved r \<and> ok r \<and> json_body r = Inr v \<longrightarrow>
        call_lm_studio_api fetch d = Inr \<lparr>type_tag = js ''json'', data = v\<rparr>)
   \<and> (fetch (relay_request d) = Fetch_rejected e \<longrightarrow> call_lm_studio_api fetch d = Inl e)"
  by (cases "fetch (relay_request d)")
     (auto simp: call_lm_studio_api_def relay_result_def fetch_rejects_def
        non_success_status_def body_fails_to_parse_def split: sum.splits)

theorem relay_raises_iff_witness:
  "call_lm_studio_api (\<lambda>q. Fetch_resolved \<lparr>status = 500, json_body = Inr JNull\<rparr>)
      \<lparr>endpoint = js ''http://localhost:1234/v1/models'', http_method = js ''GET'', body = None\<rparr>
     = Inl (JsError (js ''HTTP error! status: 500''))
   \<and> call_lm_studio_api
        (\<lambda>q. Fetch_resolved \<lparr>status = 200, json_body = Inl (JsError (js ''Unexpected token''))\<rparr>)
        \<lparr>endpoint = js ''http://localhost:1234/v1/models'', http_method = js ''GET'', body = None\<rparr>
     = Inl (JsError (js ''Unexpected token''))
   \<and> call_lm_studio_api (\<lambda>q. Fetch_resolved \<lparr>status = 200, json_body = Inr (JBool True)\<rparr>)
        \<lparr>endpoint = js ''http://localhost:1234/v1/models'', http_method = js ''GET'', body = None\<rparr>
     = Inr \<lparr>type_tag = js ''json'', data = JBool True\<rparr>"
  using
    relay_raises_iff [of "\<lambda>q. Fetch_resolved \<lparr>status = 500, json_body = Inr JNull\<rparr>"
      "\<lparr>endpoint = js ''http://localhost:1234/v1/models'', http_method = js ''GET'', body = None\<rparr>"
      "\<lparr>status = 500, json_body = Inr JNull\<rparr>"]
    relay_raises_iff [of
      "\<lambda>q. Fetch_resolved \<lparr>status = 200, json_body = Inl (JsError (js ''Unexpected token''))\<rparr>"
      "\<lparr>endpoint = js ''http://localhost:1234/v1/models'', http_method = js ''GET'', body = None\<rparr>"
      "\<lparr>status = 200, json_body = Inl (JsError (js ''Unexpected token''))\<rparr>"
      "JsError (js ''Unexpected token'')"]
    relay_raises_iff [of "\<lambda>q. Fetch_resolved \<lparr>status = 200, json_body = Inr (JBool True)\<rparr>"
      "\<lparr>endpoint = js ''http://localhost:1234/v1/models'', http_method = js ''GET'', body = None\<rparr>"
      "\<lparr>status = 200, json_body = Inr (JBool True)\<rparr>" _ "JBool True"]
  by (simp add: ok_def toString_examples js_def)

section \<open>The endpoint\<close>

text \<open>
  The components of \<open>unnamed/part_000\<close> leave the slash out of the suffix when the base
  URL ends in one, so that both spellings give the same endpoints.
\<close>

lemma apiUrl_examples:
  "apiUrl \<lparr>baseUrl = js ''http://x/'', model = m\<rparr> = js ''http://x/v1/chat/completions''"
  "apiUrl \<lparr>baseUrl = js ''http://x'', model = m\<rparr> = js ''http://x/v1/chat/completions''"
  "modelsUrl \<lparr>baseUrl = js ''http://x/'', model = m\<rparr> = js ''http://x/v1/models''"
  "modelsUrl \<lparr>baseUrl = js ''http://x'', model = m\<rparr> = js ''http://x/v1/models''"
  by (simp_all add: apiUrl_def modelsUrl_def endsWith_def js_def)

text \<open>
  C4 says that the base URLs \<open>http://x/\<close> and \<open>http://x\<close> both yield the endpoint
  \<open>http://x/v1/chat/completions\<close>. The component of \<open>src/App.tsx\<close> appends the suffix
  with its slash whatever the base URL ends in: with \<open>http://x/\<close> configured, the request
  it dispatches goes to \<open>http://x//v1/chat/completions\<close>.
\<close>

theorem sendMessage_app_doubles_the_separator:
  "map_option endpoint (snd (sendMessage_app_begin \<lparr>Date_now = 1000, new_Date = 1000\<rparr>
      (initial_state_app\<lparr>input := js ''hello'',
          config := \<lparr>baseUrl = js ''http://x/'', model = js ''local-model''\<rparr>\<rparr>)))
   = Some (js ''http://x//v1/chat/completions'')"
  by (simp add: sendMessage_app_begin_def initial_state_app_def chat_descriptor_def trim_def
      isWhiteSpace_def js_def)

section \<open>The request of a send\<close>



lemma hello_state_fields:
  "messages hello_state = []" "input hello_state = js ''hello''" "\<not> isLoading hello_state"
  "config hello_state = DEFAULT_CONFIG"
  "messages hello_state_app = []" "input hello_state_app = js ''hello''"
  "\<not> isLoading hello_state_app" "config hello_state_app = DEFAULT_CONFIG"
  by (simp_all add: hello_state_def hello_state_app_def initial_state_def initial_state_app_def
      initial_config_def)

lemma sendMessage_begin_hello:
  "sendMessage_begin clk hello_state =
     (fst (sendMessage_begin clk hello_state), Some (the (snd (sendMessage_begin clk hello_state))))"
  "sendMessage_app_begin clk hello_state_app =
     (fst (sendMessage_app_begin clk hello_state_app),
      Some (the (snd (sendMessage_app_begin clk hello_state_app))))"
  by (simp_all add: sendMessage_begin_def sendMessage_app_begin_def trim_hello hello_state_fields)

lemma role_text_values: "role_text user = js ''user''" "role_text assistant = js ''assistant''"
  by (simp_all add: role_text_def)

lemma default_urls:
  "apiUrl DEFAULT_CONFIG = js ''http://localhost:1234/v1/chat/completions''"
  "baseUrl DEFAULT_CONFIG @ js ''/v1/chat/completions''
     = js ''http://localhost:1234/v1/chat/completions''"
  "model DEFAULT_CONFIG = js ''local-model''"
  "baseUrl DEFAULT_CONFIG = js ''http://localhost:1234''"
  by (simp_all add: apiUrl_def DEFAULT_CONFIG_def endsWith_def js_def)

text \<open>
  C9: the \<open>messages\<close> array of every request that \<open>sendMessage\<close> dispatches is the whole
  transcript of that moment, entry by entry and in order, followed by the new user
  message; every entry of the transcript is in it, whichever operation appended it. This
  holds in both components.
\<close>

theorem request_carries_whole_transcript:
  assumes "sendMessage_begin clk s = (s', Some d)"
      and "sendMessage_app_begin clk b = (b', Some d')"
  shows "request_messages d =
           map role_content (messages s) @ [role_content (userMessage clk (input s))]
     \<and> (\<forall>m \<in> set (messages s). role_content m \<in> set (request_messages d))
     \<and> request_messages d' =
           map role_content (messages b) @ [role_content (userMessage clk (input b))]
     \<and> (\<forall>m \<in> set (messages b). role_content m \<in> set (request_messages d'))"
proof -
  have d: "request_messages d =
      map role_content (messages s) @ [role_content (userMessage clk (input s))]"
    using assms(1)
    by (auto simp: sendMessage_begin_def chat_descriptor_def request_messages_def
        conversationHistory_def role_content_def key_messages split: if_splits)
  have d': "request_messages d' =
      map role_content (messages b) @ [role_content (userMessage clk (input b))]"
    using assms(2)
    by (auto simp: sendMessage_app_begin_def chat_descriptor_def request_messages_def
        conversationHistory_def role_content_def key_messages split: if_splits)
  show ?thesis by (simp add: d d')
qed

lemma notices_state_fields:
  "messages notices_state =
     [successMessage \<lparr>Date_now = 1000, new_Date = 1000\<rparr> DEFAULT_CONFIG,
      connectionErrorMessage DEFAULT_CONFIG \<lparr>Date_now = 1250, new_Date = 1250\<rparr>
        (JsError (js ''fetch failed''))]"
  "input notices_state = js ''hello''"
  "\<not> isLoading notices_state"
proof -
  have t: "trim (js ''http://localhost:1234'') = js ''http://localhost:1234''"
    "trim (js ''local-model'') = js ''local-model''"
    "js ''http://localhost:1234'' \<noteq> []" "js ''local-model'' \<noteq> []"
    by (simp_all add: trim_def isWhiteSpace_def js_def)
  have f: "finalConfig DEFAULT_CONFIG = DEFAULT_CONFIG"
    by (simp add: finalConfig_def DEFAULT_CONFIG_def or_default_def t)
  show "messages notices_state =
     [successMessage \<lparr>Date_now = 1000, new_Date = 1000\<rparr> DEFAULT_CONFIG,
      connectionErrorMessage DEFAULT_CONFIG \<lparr>Date_now = 1250, new_Date = 1250\<rparr>
        (JsError (js ''fetch failed''))]"
    "input notices_state = js ''hello''"
    "\<not> isLoading notices_state"
    by (simp_all add: notices_state_def initial_state_def initial_config_def toggleConfigPanel_def
        saveConfig_def f testConnection_begin_def testConnection_end_def accepted_def)
qed



theorem request_carries_whole_transcript_witness:
  "request_messages (the (snd (sendMessage_begin \<lparr>Date_now = 1500, new_Date = 1500\<rparr> notices_state))) =
     [JObj [(js ''role'', JStr (js ''assistant'')),
            (js ''content'', JStr (txt_saved_url @ js ''http://localhost:1234'' @ txt_model_name
                                   @ js ''local-model''))],
      JObj [(js ''role'', JStr (js ''assistant'')),
            (js ''content'', JStr (txt_conn_error_url @ js ''http://localhost:1234''
                                   @ txt_error_detail @ js ''fetch failed'' @ txt_check_settings))],
      JObj [(js ''role'', JStr (js ''user'')), (js ''content'', JStr (js ''hello''))]]
   \<and> request_messages
        (the (snd (sendMessage_app_begin \<lparr>Date_now = 1500, new_Date = 1500\<rparr> hello_state_app))) =
     [JObj [(js ''role'', JStr (js ''user'')), (js ''content'', JStr (js ''hello''))]]"
proof -
  have h: "sendMessage_begin \<lparr>Date_now = 1500, new_Date = 1500\<rparr> notices_state =
     (fst (sendMessage_begin \<lparr>Date_now = 1500, new_Date = 1500\<rparr> notices_state),
      Some (the (snd (sendMessage_begin \<lparr>Date_now = 1500, new_Date = 1500\<rparr> notices_state))))"
    by (simp add: sendMessage_begin_def notices_state_fields trim_hello)
  from request_carries_whole_transcript
    [OF h sendMessage_begin_hello(2) [of "\<lparr>Date_now = 1500, new_Date = 1500\<rparr>"]]
  show ?thesis
    by (simp add: notices_state_fields hello_state_fields role_content_def successMessage_def
        connectionErrorMessage_def userMessage_def error_text_def trim_hello role_text_values
        default_urls)
qed

section \<open>Saving the configuration\<close>

text \<open>
  C6: \<open>saveConfig\<close> trims both fields of the staged configuration and puts the default in
  the place of a field that is empty after trimming; the result is the active
  configuration whether or not the store accepts it, and it is what is stored when the
  store accepts it.
\<close>

theorem saveConfig_trims_and_defaults:
  "config (saveConfig setItem_ok clk s) =
     \<lparr>baseUrl = (if trim (baseUrl (tempConfig s)) = [] then js ''http://localhost:1234''
                 else trim (baseUrl (tempConfig s))),
      model = (if trim (model (tempConfig s)) = [] then js ''local-model''
               else trim (model (tempConfig s)))\<rparr>
   \<and> stored (saveConfig True clk s) = Some (config (saveConfig True clk s))"
  by (simp add: saveConfig_def finalConfig_def or_default_def DEFAULT_CONFIG_def)

theorem saveConfig_trims_and_defaults_witness:
  "config (saveConfig True \<lparr>Date_now = 1000, new_Date = 1000\<rparr>
     ((initial_state None)\<lparr>tempConfig := \<lparr>baseUrl = js ''  '', model = js ''gpt''\<rparr>\<rparr>))
   = \<lparr>baseUrl = js ''http://localhost:1234'', model = js ''gpt''\<rparr>"
  using saveConfig_trims_and_defaults [of True "\<lparr>Date_now = 1000, new_Date = 1000\<rparr>"
      "(initial_state None)\<lparr>tempConfig := \<lparr>baseUrl = js ''  '', model = js ''gpt''\<rparr>\<rparr>"]
  by (simp add: trim_def isWhiteSpace_def js_def)

section \<open>The entry of a failed send\<close>

text \<open>
  C7, as stated: after a send whose relay call rejects, the assistant entry contains the
  configured base URL. In the component of \<open>src/App.tsx\<close> it does not: there the entry
  is the error indicator followed by the error's message, and nothing else.
\<close>

theorem sendMessage_app_error_entry_lacks_base_url:
  "messages (sendMessage_app relay_500 \<lparr>Date_now = 1000, new_Date = 1000\<rparr>
      \<lparr>Date_now = 1250, new_Date = 1250\<rparr> hello_state_app) =
     [\<lparr>id_msg = js ''1000'', role = user, content = JStr (js ''hello''), timestamp = 1000\<rparr>,
      \<lparr>id_msg = js ''1251'', role = assistant,
        content = JStr (txt_error_occurred @ js ''HTTP error! status: 500''), timestamp = 1250\<rparr>]
   \<and> \<not> includes_str (txt_error_occurred @ js ''HTTP error! status: 500'')
         (baseUrl (config hello_state_app))"
proof -
  have "\<not> includes_str (txt_error_occurred @ js ''HTTP error! status: 500'')
         (js ''http://localhost:1234'')"
    by (simp add: txt_error_occurred_def js_def)
  then show ?thesis
    by (simp add: sendMessage_app_def sendMessage_app_begin_def sendMessage_app_end_def
      hello_state_fields trim_hello userMessage_def chat_reply_Rejected relay_500_def
      errorMessage_app_def error_text_def toString_examples default_urls)
qed

text \<open>
  C7, amended: for a send from an empty transcript whose relay call rejects, the
  transcript is the user entry followed by one assistant entry, and the busy flag is
  clear afterwards. In the components with the settings panel the content of that entry
  contains the error indicator and the base URL that was configured when the send was
  invoked; in the component of \<open>src/App.tsx\<close> it is the error indicator followed by the
  error's message.
\<close>

theorem rejected_send_leaves_error_entry:
  assumes "trim (input s) \<noteq> []" and "\<not> isLoading s" and "messages s = []"
      and "trim (input b) \<noteq> []" and "\<not> isLoading b" and "messages b = []"
      and "\<And>d. relay d = Rejected e"
  shows "(\<exists>text. messages (sendMessage relay clk clk' s) =
            [userMessage clk (input s),
             \<lparr>id_msg = toString (Date_now clk' + 1), role = assistant, content = JStr text,
              timestamp = new_Date clk'\<rparr>]
          \<and> includes_str text (baseUrl (config s))
          \<and> includes_str text txt_error_occurred)
     \<and> \<not> isLoading (sendMessage relay clk clk' s)
     \<and> messages (sendMessage_app relay clk clk' b) =
            [userMessage clk (input b),
             \<lparr>id_msg = toString (Date_now clk' + 1), role = assistant,
              content = JStr (txt_error_occurred @ error_text e), timestamp = new_Date clk'\<rparr>]
     \<and> \<not> isLoading (sendMessage_app relay clk clk' b)"
proof -
  let ?text = "txt_error_occurred @ error_text e @ txt_check_settings_url @ baseUrl (config s)
                 @ txt_model_name @ model (config s)"
  have run: "sendMessage relay clk clk' s =
      s\<lparr>messages := [userMessage clk (input s), errorMessage (config s) clk' e],
        input := [], isLoading := False\<rparr>"
    using assms(1-3)
    by (simp add: sendMessage_def sendMessage_begin_def sendMessage_end_def assms(7)
        chat_reply_Rejected)
  have run_app: "sendMessage_app relay clk clk' b =
      b\<lparr>messages := [userMessage clk (input b), errorMessage_app clk' e],
        input := [], isLoading := False\<rparr>"
    using assms(4-6)
    by (simp add: sendMessage_app_def sendMessage_app_begin_def sendMessage_app_end_def assms(7)
        chat_reply_Rejected)
  have i1: "includes_str ?text (baseUrl (config s))"
    using includes_str_append [of "txt_error_occurred @ error_text e @ txt_check_settings_url"
        "baseUrl (config s)" "txt_model_name @ model (config s)"]
    by simp
  have i2: "includes_str ?text txt_error_occurred"
    using includes_str_prefix [of txt_error_occurred] by simp
  have "messages (sendMessage relay clk clk' s) =
            [userMessage clk (input s),
             \<lparr>id_msg = toString (Date_now clk' + 1), role = assistant, content = JStr ?text,
              timestamp = new_Date clk'\<rparr>]"
    by (simp add: run errorMessage_def)
  with i1 i2 have first: "\<exists>text. messages (sendMessage relay clk clk' s) =
            [userMessage clk (input s),
             \<lparr>id_msg = toString (Date_now clk' + 1), role = assistant, content = JStr text,
              timestamp = new_Date clk'\<rparr>]
          \<and> includes_str text (baseUrl (config s))
          \<and> includes_str text txt_error_occurred"
    by blast
  show ?thesis
    using first by (simp add: run run_app errorMessage_app_def)
qed

theorem rejected_send_leaves_error_entry_witness:
  "(\<exists>text. messages (sendMessage relay_500 \<lparr>Date_now = 1000, new_Date = 1000\<rparr>
               \<lparr>Date_now = 1250, new_Date = 1250\<rparr> hello_state) =
            [\<lparr>id_msg = js ''1000'', role = user, content = JStr (js ''hello''), timestamp = 1000\<rparr>,
             \<lparr>id_msg = js ''1251'', role = assistant, content = JStr text, timestamp = 1250\<rparr>]
          \<and> includes_str text (js ''http://localhost:1234'')
          \<and> includes_str text txt_error_occurred)
   \<and> \<not> isLoading (sendMessage relay_500 \<lparr>Date_now = 1000, new_Date = 1000\<rparr>
               \<lparr>Date_now = 1250, new_Date = 1250\<rparr> hello_state)
   \<and> \<not> isLoading (sendMessage_app relay_500 \<lparr>Date_now = 1000, new_Date = 1000\<rparr>
               \<lparr>Date_now = 1250, new_Date = 1250\<rparr> hello_state_app)"
proof -
  have h: "trim (input hello_state) \<noteq> []" "trim (input hello_state_app) \<noteq> []"
    by (simp_all add: hello_state_fields trim_hello)
  have r: "relay_500 d = Rejected (JsError (js ''HTTP error! status: 500''))" for d
    by (simp add: relay_500_def)
  note t = rejected_send_leaves_error_entry
    [where s = hello_state and b = hello_state_app and relay = relay_500
       and e = "JsError (js ''HTTP error! status: 500'')"
       and clk = "\<lparr>Date_now = 1000, new_Date = 1000\<rparr>"
       and clk' = "\<lparr>Date_now = 1250, new_Date = 1250\<rparr>"]
  from t [OF h(1) hello_state_fields(3) hello_state_fields(1)
      h(2) hello_state_fields(7) hello_state_fields(5) r]
  show ?thesis
    by (simp add: hello_state_fields userMessage_def trim_hello toString_examples default_urls)
qed

section \<open>A falsy decoded body\<close>

text \<open>
  The connection test of the third component at three answers: a list of three models
  (one with an id, one with a name, one with neither), an answer without a \<open>data\<close>
  property, and an answer whose \<open>data\<close> is a string, on which \<open>models.map\<close> throws.
\<close>

lemma testConnection_end_listing_examples:
  "messages (testConnection_end_listing whole_number_text DEFAULT_CONFIG
      \<lparr>Date_now = 1250, new_Date = 1250\<rparr>
      (Resolved \<lparr>type_tag = js ''json'',
         data = JObj [(js ''data'', JArr [JObj [(js ''id'', JStr (js ''m1''))],
                                          JObj [(js ''name'', JStr (js ''m2''))],
                                          JObj []])]\<rparr>) hello_state) =
     [\<lparr>id_msg = js ''1250'', role = assistant,
        content = JStr (txt_listing_connected_url @ js ''http://localhost:1234'' @ txt_model_count
                        @ js ''3'' @ txt_model_list @ js ''m1, m2, '' @ msg_unknown),
        timestamp = 1250\<rparr>]"
  "messages (testConnection_end_listing whole_number_text DEFAULT_CONFIG
      \<lparr>Date_now = 1250, new_Date = 1250\<rparr>
      (Resolved \<lparr>type_tag = js ''json'', data = JObj [(js ''object'', JStr (js ''list''))]\<rparr>)
      hello_state) =
     [\<lparr>id_msg = js ''1250'', role = assistant,
        content = JStr (txt_listing_connected_url @ js ''http://localhost:1234'' @ txt_model_count
                        @ js ''0'' @ txt_model_list @ txt_none),
        timestamp = 1250\<rparr>]"
  "messages (testConnection_end_listing whole_number_text DEFAULT_CONFIG
      \<lparr>Date_now = 1250, new_Date = 1250\<rparr>
      (Resolved \<lparr>type_tag = js ''json'', data = JObj [(js ''data'', JStr (js ''abc''))]\<rparr>)
      hello_state) =
     [\<lparr>id_msg = js ''1250'', role = assistant,
        content = JStr (txt_listing_conn_error_url @ js ''http://localhost:1234''
                        @ txt_error_detail @ js ''models.map is not a function''
                        @ txt_check_settings),
        timestamp = 1250\<rparr>]"
proof -
  have n: "toString 1250 = js ''1250''" "toString 3 = js ''3''" "toString 0 = js ''0''"
    by (simp_all add: toString_def toString_nat.simps js_def)
  have k: "js ''id'' \<noteq> js ''name''" "js ''name'' \<noteq> js ''id''" "js ''m1'' \<noteq> []"
    "js ''m2'' \<noteq> []" "js ''abc'' \<noteq> []" "js ''data'' \<noteq> js ''object''"
    "js ''object'' \<noteq> js ''data''" "msg_unknown \<noteq> []"
    by (simp_all add: js_def msg_unknown_def)
  have j: "js ''m1'' @ js '', '' @ js ''m2'' @ js '', '' @ msg_unknown = js ''m1, m2, '' @ msg_unknown"
    by (simp add: js_def)
  show "messages (testConnection_end_listing whole_number_text DEFAULT_CONFIG
      \<lparr>Date_now = 1250, new_Date = 1250\<rparr>
      (Resolved \<lparr>type_tag = js ''json'',
         data = JObj [(js ''data'', JArr [JObj [(js ''id'', JStr (js ''m1''))],
                                          JObj [(js ''name'', JStr (js ''m2''))],
                                          JObj []])]\<rparr>) hello_state) =
     [\<lparr>id_msg = js ''1250'', role = assistant,
        content = JStr (txt_listing_connected_url @ js ''http://localhost:1234'' @ txt_model_count
                        @ js ''3'' @ txt_model_list @ js ''m1, m2, '' @ msg_unknown),
        timestamp = 1250\<rparr>]"
    by (simp add: testConnection_end_listing_def accepted_def listing_def model_name_def
        or_else_def join_array_def join_texts_def connectionMessage_listing_def or_default_def
        hello_state_fields default_urls n k j)
  show "messages (testConnection_end_listing whole_number_text DEFAULT_CONFIG
      \<lparr>Date_now = 1250, new_Date = 1250\<rparr>
      (Resolved \<lparr>type_tag = js ''json'', data = JObj [(js ''object'', JStr (js ''list''))]\<rparr>)
      hello_state) =
     [\<lparr>id_msg = js ''1250'', role = assistant,
        content = JStr (txt_listing_connected_url @ js ''http://localhost:1234'' @ txt_model_count
                        @ js ''0'' @ txt_model_list @ txt_none),
        timestamp = 1250\<rparr>]"
    by (simp add: testConnection_end_listing_def accepted_def listing_def
        or_else_def join_array_def join_texts_def connectionMessage_listing_def or_default_def
        hello_state_fields default_urls n k)
  show "messages (testConnection_end_listing whole_number_text DEFAULT_CONFIG
      \<lparr>Date_now = 1250, new_Date = 1250\<rparr>
      (Resolved \<lparr>type_tag = js ''json'', data = JObj [(js ''data'', JStr (js ''abc''))]\<rparr>)
      hello_state) =
     [\<lparr>id_msg = js ''1250'', role = assistant,
        content = JStr (txt_listing_conn_error_url @ js ''http://localhost:1234''
                        @ txt_error_detail @ js ''models.map is not a function''
                        @ txt_check_settings),
        timestamp = 1250\<rparr>]"
    by (simp add: testConnection_end_listing_def accepted_def listing_def
        or_else_def connectionErrorMessage_listing_def error_text_def
        hello_state_fields default_urls n k)
qed




section \<open>The ids of the transcript\<close>
















end
